theory Spec2Isabelle
  imports Complex_Main
begin

section \<open>Python numbers\<close>

text \<open>
  The controller computes with Python \<open>int\<close> (unbounded, modelled as \<open>int\<close>) and Python
  \<open>float\<close> (IEEE 754 binary64). A float is modelled by its exact rational value, or one of
  the three special values. Negative zero is identified with zero: the program only
  compares, multiplies, adds and truncates floats, and none of these tells the two apart.
\<close>

datatype error = OverflowError | ValueError

datatype pyfloat = Finite rat | PInf | NInf | NaN

function bit_length :: "int \<Rightarrow> int" where
  "bit_length n = (if n \<le> 0 then 0 else 1 + bit_length (n div 2))"
  by pat_completeness auto
termination
  by (relation "measure nat") auto

declare bit_length.simps [simp del]

definition pow2 :: "int \<Rightarrow> rat" where
  "pow2 e = (if 0 \<le> e then of_int (2 ^ nat e) else 1 / of_int (2 ^ nat (- e)))"

text \<open>\<open>ilog2 x\<close> is the binary exponent of a positive rational: \<open>2^e \<le> x < 2^(e+1)\<close>.\<close>

definition ilog2 :: "rat \<Rightarrow> int" where
  "ilog2 x =
     (if 1 \<le> x then bit_length \<lfloor>x\<rfloor> - 1
      else (let b = bit_length \<lfloor>1 / x\<rfloor>
            in if x = pow2 (1 - b) then 1 - b else - b))"

definition round_half_even :: "rat \<Rightarrow> int" where
  "round_half_even q =
     (let f = \<lfloor>q\<rfloor>; d = q - of_int f
      in if d < 1 / 2 then f
         else if 1 / 2 < d then f + 1
         else if even f then f else f + 1)"

text \<open>
  Rounding to the nearest binary64 value, ties to even: 53 significant bits, and a fixed
  unit of \<open>2^-1074\<close> in the subnormal range.
\<close>

definition round_to_double :: "rat \<Rightarrow> rat" where
  "round_to_double x =
     (if x = 0 then 0
      else (let ue = max (ilog2 \<bar>x\<bar> - 52) (- 1074)
            in of_int (round_half_even (x / pow2 ue)) * pow2 ue))"

text \<open>
  Round-to-nearest overflows exactly from \<open>2^1024 - 2^970\<close> on, the midpoint between the
  largest finite double and \<open>2^1024\<close>.
\<close>

definition dbl_overflow :: int where
  "dbl_overflow = 2 ^ 1024 - 2 ^ 970"

definition to_double :: "rat \<Rightarrow> pyfloat" where
  "to_double x =
     (if dbl_overflow \<le> \<lfloor>\<bar>x\<bar>\<rfloor> then (if 0 < x then PInf else NInf)
      else Finite (round_to_double x))"

text \<open>
  \<open>int * float\<close> first converts the int; the conversion raises \<open>OverflowError\<close> where
  a float operation would give an infinity.
\<close>

definition int_to_float :: "int \<Rightarrow> error + pyfloat" where
  "int_to_float n =
     (if dbl_overflow \<le> \<bar>n\<bar> then Inl OverflowError
      else Inr (Finite (round_to_double (of_int n))))"

fun fmul :: "pyfloat \<Rightarrow> pyfloat \<Rightarrow> pyfloat" where
  "fmul (Finite a) (Finite b) = to_double (a * b)"
| "fmul NaN _ = NaN"
| "fmul _ NaN = NaN"
| "fmul (Finite a) PInf = (if a = 0 then NaN else if 0 < a then PInf else NInf)"
| "fmul (Finite a) NInf = (if a = 0 then NaN else if 0 < a then NInf else PInf)"
| "fmul PInf (Finite b) = (if b = 0 then NaN else if 0 < b then PInf else NInf)"
| "fmul NInf (Finite b) = (if b = 0 then NaN else if 0 < b then NInf else PInf)"
| "fmul PInf PInf = PInf"
| "fmul NInf NInf = PInf"
| "fmul PInf NInf = NInf"
| "fmul NInf PInf = NInf"

fun fadd :: "pyfloat \<Rightarrow> pyfloat \<Rightarrow> pyfloat" where
  "fadd (Finite a) (Finite b) = to_double (a + b)"
| "fadd NaN _ = NaN"
| "fadd _ NaN = NaN"
| "fadd PInf NInf = NaN"
| "fadd NInf PInf = NaN"
| "fadd PInf _ = PInf"
| "fadd NInf _ = NInf"
| "fadd _ PInf = PInf"
| "fadd _ NInf = NInf"

text \<open>The comparison \<open>x < y\<close> of two floats; every comparison with \<open>nan\<close> is false.\<close>

fun flt :: "pyfloat \<Rightarrow> pyfloat \<Rightarrow> bool" where
  "flt (Finite a) (Finite b) = (a < b)"
| "flt NaN _ = False"
| "flt _ NaN = False"
| "flt NInf NInf = False"
| "flt NInf _ = True"
| "flt _ NInf = False"
| "flt PInf _ = False"
| "flt _ PInf = True"

text \<open>
  The built-ins \<open>min(a, b)\<close> and \<open>max(a, b)\<close> keep their first argument unless the
  second is strictly smaller (larger).
\<close>

definition py_min :: "pyfloat \<Rightarrow> pyfloat \<Rightarrow> pyfloat" where
  "py_min a b = (if flt b a then b else a)"

definition py_max :: "pyfloat \<Rightarrow> pyfloat \<Rightarrow> pyfloat" where
  "py_max a b = (if flt a b then b else a)"

text \<open>\<open>int(x)\<close> truncates towards zero and raises on an infinity or \<open>nan\<close>.\<close>

fun py_int :: "pyfloat \<Rightarrow> error + int" where
  "py_int (Finite r) = Inr (if 0 \<le> r then \<lfloor>r\<rfloor> else \<lceil>r\<rceil>)"
| "py_int PInf = Inl OverflowError"
| "py_int NInf = Inl OverflowError"
| "py_int NaN = Inl ValueError"

text \<open>A float literal denotes the double nearest to its decimal value.\<close>

definition float_literal :: "rat \<Rightarrow> pyfloat" where
  "float_literal r = Finite (round_to_double r)"

section \<open>Configuration constants\<close>

definition PUMP_ON_TIME :: int where "PUMP_ON_TIME = 45"
definition BASE_OFF_TIME :: int where "BASE_OFF_TIME = 420"
definition MIN_OFF_TIME :: int where "MIN_OFF_TIME = 300"
definition MAX_OFF_TIME :: int where "MAX_OFF_TIME = 86400"
definition WORKING_POWER_THRESHOLD :: rat where "WORKING_POWER_THRESHOLD = 200"
definition SHORT_RUN_THRESHOLD :: rat where "SHORT_RUN_THRESHOLD = 8"
definition OPTIMAL_RUN_THRESHOLD :: rat where "OPTIMAL_RUN_THRESHOLD = 15"
definition LIGHT_RAIN_FACTOR :: pyfloat where "LIGHT_RAIN_FACTOR = float_literal (7 / 10)"
definition HEAVY_RAIN_FACTOR :: pyfloat where "HEAVY_RAIN_FACTOR = float_literal (1 / 2)"
definition HEAVY_RAIN_THRESHOLD :: rat where "HEAVY_RAIN_THRESHOLD = 5 / 2"

section \<open>Data\<close>

text \<open>
  \<open>weather_data\<close> as \<open>get_weather_data\<close> builds it. \<open>rain_1h\<close> is the JSON number of
  the weather reply (an int or a finite float), kept as its exact value.
\<close>

record weather =
  condition :: string
  rain_1h :: rat
  description :: string

text \<open>One reading of \<open>get_power_data\<close>; the power is a finite float.\<close>

record power_data =
  power_w :: rat
  current_a :: rat
  voltage_v :: rat

text \<open>The dictionary returned by \<open>monitor_pump_performance\<close>.\<close>

record performance =
  working_time :: rat
  total_time :: int
  avg_power :: pyfloat
  max_power :: rat
  min_power :: rat
  power_readings :: "power_data list"

text \<open>
  The fields of \<open>IntelligentPumpController\<close> that carry state. The HTTP session and the
  logger are outside the model, and so is \<open>next_cycle_time\<close>, which is only written.
\<close>

record controller =
  cycle_count :: int
  current_off_time :: int
  manual_override :: "int option"
  override_command :: "string option"
  weather_data :: "weather option"
  pump_status :: string
  is_running :: bool
  healthcheck_url :: string
  weather_api_key :: string
  location :: string

text \<open>The constructor \<open>__init__\<close>.\<close>

definition init_controller :: controller where
  "init_controller =
     \<lparr>cycle_count = 0, current_off_time = BASE_OFF_TIME, manual_override = None,
      override_command = None, weather_data = None, pump_status = ''unknown'',
      is_running = False, healthcheck_url = [], weather_api_key = [], location = []\<rparr>"

section \<open>The off-time policy: \<open>calculate_dynamic_off_time\<close>\<close>

text \<open>\<open>s in t\<close> on strings: \<open>s\<close> occurs in \<open>t\<close> as a contiguous piece.\<close>

fun starts_with :: "string \<Rightarrow> string \<Rightarrow> bool" where
  "starts_with [] t = True"
| "starts_with (x # xs) [] = False"
| "starts_with (x # xs) (y # ys) = (x = y \<and> starts_with xs ys)"

fun py_in :: "string \<Rightarrow> string \<Rightarrow> bool" where
  "py_in s [] = (s = [])"
| "py_in s (y # ys) = (starts_with s (y # ys) \<or> py_in s ys)"

text \<open>The test \<open>'rain' in condition or rain_1h > 0\<close>.\<close>

definition rain_indicated :: "weather \<Rightarrow> bool" where
  "rain_indicated w = (py_in ''rain'' (condition w) \<or> 0 < rain_1h w)"

text \<open>
  The test \<open>if self.manual_override:\<close> is Python truthiness: \<open>None\<close> and \<open>0\<close> are
  both false.
\<close>

definition override_in_effect :: "controller \<Rightarrow> bool" where
  "override_in_effect c =
     (case manual_override c of None \<Rightarrow> False | Some m \<Rightarrow> m \<noteq> 0)"

text \<open>
  \<open>max(MIN_OFF_TIME, min(MAX_OFF_TIME, new_off_time))\<close>. The two int bounds are shown by
  the floats of the same value, which \<open>int\<close> maps back to them.
\<close>

definition apply_limits :: "pyfloat \<Rightarrow> pyfloat" where
  "apply_limits x =
     py_max (Finite (of_int MIN_OFF_TIME)) (py_min (Finite (of_int MAX_OFF_TIME)) x)"

text \<open>The weather adjustment of the three multiplicative regimes.\<close>

definition weather_adjust :: "weather option \<Rightarrow> pyfloat \<Rightarrow> pyfloat" where
  "weather_adjust wd x =
     (case wd of
        None \<Rightarrow> x
      | Some w \<Rightarrow>
          if rain_indicated w
          then fmul x (if HEAVY_RAIN_THRESHOLD < rain_1h w then HEAVY_RAIN_FACTOR
                       else LIGHT_RAIN_FACTOR)
          else x)"

text \<open>
  The common tail of the three multiplicative regimes, from
  \<open>new_off_time = self.current_off_time * adjustment_factor\<close> to
  \<open>return int(new_off_time)\<close>. The controller is returned unchanged.
\<close>

definition scaled_off_time :: "pyfloat \<Rightarrow> controller \<Rightarrow> (error + int) \<times> controller" where
  "scaled_off_time adjustment_factor c =
     (case int_to_float (current_off_time c) of
        Inl e \<Rightarrow> (Inl e, c)
      | Inr f \<Rightarrow>
          (py_int (apply_limits (weather_adjust (weather_data c) (fmul f adjustment_factor))),
           c))"

text \<open>
  The heavy-load branch: start from 300, scale by 0.8 or 0.9 under rain and truncate,
  take the maximum with \<open>MIN_OFF_TIME\<close>, and assign \<open>BASE_OFF_TIME\<close> to
  \<open>self.current_off_time\<close> before returning.
\<close>

definition heavy_load_off_time :: "controller \<Rightarrow> (error + int) \<times> controller" where
  "heavy_load_off_time c =
     (let new_off_time =
            (case weather_data c of
               None \<Rightarrow> Inr 300
             | Some w \<Rightarrow>
                 if rain_indicated w
                 then (if HEAVY_RAIN_THRESHOLD < rain_1h w
                       then py_int (fmul (Finite 300) (float_literal (8 / 10)))
                       else py_int (fmul (Finite 300) (float_literal (9 / 10))))
                 else Inr 300)
      in case new_off_time of
           Inl e \<Rightarrow> (Inl e, c)
         | Inr n \<Rightarrow> (Inr (max MIN_OFF_TIME n), c\<lparr>current_off_time := BASE_OFF_TIME\<rparr>))"

text \<open>The \<open>if\<close>/\<open>elif\<close> chain on \<open>working_time\<close>.\<close>

definition adaptive_off_time :: "performance \<Rightarrow> controller \<Rightarrow> (error + int) \<times> controller" where
  "adaptive_off_time performance_data c =
     (if working_time performance_data < SHORT_RUN_THRESHOLD
      then scaled_off_time (float_literal 2) c
      else if working_time performance_data \<le> OPTIMAL_RUN_THRESHOLD
      then scaled_off_time (float_literal 1) c
      else if working_time performance_data \<le> 30
      then scaled_off_time (float_literal (7 / 10)) c
      else heavy_load_off_time c)"

text \<open>
  The method returns the next off-time, or raises, and may have written to the
  controller: the result is paired with the controller after the call.
\<close>

definition calculate_dynamic_off_time ::
    "performance \<Rightarrow> controller \<Rightarrow> (error + int) \<times> controller" where
  "calculate_dynamic_off_time performance_data c =
     (case manual_override c of
        None \<Rightarrow> adaptive_off_time performance_data c
      | Some m \<Rightarrow>
          if m \<noteq> 0 then (Inr m, c) else adaptive_off_time performance_data c)"

section \<open>The state file: \<open>save_config\<close> and \<open>load_config\<close>\<close>

text \<open>
  The JSON object of \<open>sump_config.json\<close>. A field is \<open>None\<close> when its key is absent;
  for \<open>manual_override\<close>, read with \<open>config.get('manual_override')\<close>, an absent key and
  a JSON \<open>null\<close> both give \<open>None\<close>. The file is missing, holds such an object, or holds
  something \<open>json.load\<close> or the reads of \<open>load_config\<close> raise on.
\<close>

record config =
  cfg_current_off_time :: "int option"
  cfg_manual_override :: "int option"
  cfg_healthcheck_url :: "string option"
  cfg_weather_api_key :: "string option"
  cfg_location :: "string option"
  cfg_last_updated :: "string option"

datatype config_file = Missing | Malformed | Stored config

text \<open>
  How the write of \<open>save_config\<close> ends: it succeeds, \<open>open\<close> raises (the file is left as
  it was), or \<open>json.dump\<close> raises after \<open>open\<close> has truncated the file. Both exceptions
  are caught and logged.
\<close>

datatype write_outcome = WriteOK | OpenFailed | DumpFailed

definition save_config :: "write_outcome \<Rightarrow> string \<Rightarrow> controller \<Rightarrow> config_file \<Rightarrow> config_file" where
  "save_config io now c f =
     (case io of
        WriteOK \<Rightarrow>
          Stored \<lparr>cfg_current_off_time = Some (current_off_time c),
                  cfg_manual_override = manual_override c,
                  cfg_healthcheck_url = Some (healthcheck_url c),
                  cfg_weather_api_key = Some (weather_api_key c),
                  cfg_location = Some (location c),
                  cfg_last_updated = Some now\<rparr>
      | OpenFailed \<Rightarrow> f
      | DumpFailed \<Rightarrow> Malformed)"

definition get_or :: "'a option \<Rightarrow> 'a \<Rightarrow> 'a" where
  "get_or v d = (case v of None \<Rightarrow> d | Some x \<Rightarrow> x)"

definition load_config :: "config_file \<Rightarrow> controller \<Rightarrow> controller" where
  "load_config f c =
     (case f of
        Missing \<Rightarrow> c
      | Malformed \<Rightarrow> c
      | Stored cfg \<Rightarrow>
          c\<lparr>current_off_time := get_or (cfg_current_off_time cfg) BASE_OFF_TIME,
            manual_override := cfg_manual_override cfg,
            healthcheck_url := get_or (cfg_healthcheck_url cfg) [],
            weather_api_key := get_or (cfg_weather_api_key cfg) [],
            location := get_or (cfg_location cfg) (location c)\<rparr>)"

text \<open>
  Process start without arguments: \<open>main\<close> constructs the controller and calls
  \<open>run_controller\<close>, which sets \<open>is_running\<close>, sleeps, opens the session and enters the
  cycle loop. \<open>load_config\<close> is called nowhere in the program, so the state file \<open>f\<close>
  present at start has no part in the controller the first cycle runs on.
\<close>

definition controller_at_first_cycle :: "config_file \<Rightarrow> controller" where
  "controller_at_first_cycle f = init_controller\<lparr>is_running := True\<rparr>"

section \<open>Override commands: \<open>check_override_commands\<close>\<close>

text \<open>
  The text of the override file is taken as ASCII. \<open>str.strip\<close>, \<open>str.lower\<close>,
  \<open>str.split\<close> without argument, \<open>str.isdigit\<close> and \<open>int\<close> on a digit string follow.
  The limit that recent interpreters put on the number of digits \<open>int\<close> accepts (4300 by
  default) is not modelled.
\<close>

definition is_space :: "char \<Rightarrow> bool" where
  "is_space c =
     (c \<in> set [CHR 0x09, CHR 0x0A, CHR 0x0B, CHR 0x0C, CHR 0x0D,
               CHR 0x1C, CHR 0x1D, CHR 0x1E, CHR 0x1F, CHR 0x20])"

definition py_strip :: "string \<Rightarrow> string" where
  "py_strip s = rev (dropWhile is_space (rev (dropWhile is_space s)))"

definition lower_char :: "char \<Rightarrow> char" where
  "lower_char c =
     (let n = (of_char c :: nat) in if 65 \<le> n \<and> n \<le> 90 then char_of (n + 32) else c)"

definition py_lower :: "string \<Rightarrow> string" where
  "py_lower s = map lower_char s"

fun split_words :: "string \<Rightarrow> string \<Rightarrow> string list" where
  "split_words w [] = (if w = [] then [] else [w])"
| "split_words w (x # xs) =
     (if is_space x then (if w = [] then split_words [] xs else w # split_words [] xs)
      else split_words (w @ [x]) xs)"

definition py_split :: "string \<Rightarrow> string list" where
  "py_split s = split_words [] s"

definition is_digit :: "char \<Rightarrow> bool" where
  "is_digit c = (let n = (of_char c :: nat) in 48 \<le> n \<and> n \<le> 57)"

definition py_isdigit :: "string \<Rightarrow> bool" where
  "py_isdigit s = (s \<noteq> [] \<and> list_all is_digit s)"

definition int_of_digits :: "string \<Rightarrow> int" where
  "int_of_digits s = foldl (\<lambda>acc c. acc * 10 + (int (of_char c) - 48)) 0 s"

text \<open>
  \<open>override_file\<close> is the text of \<open>pump_override.txt\<close>, or \<open>None\<close> when the file does
  not exist. After a command has been read the file is removed and the configuration
  saved, whatever the command was.
\<close>

definition apply_command :: "string \<Rightarrow> controller \<Rightarrow> controller" where
  "apply_command command c =
     (if command = ''stop'' then c\<lparr>is_running := False\<rparr>
      else if command = ''normal'' then c\<lparr>manual_override := None\<rparr>
      else if starts_with ''wait'' command then
        (case py_split command of
           [p0, p1] \<Rightarrow>
             if py_isdigit p1 then c\<lparr>manual_override := Some (int_of_digits p1 * 60)\<rparr>
             else c
         | _ \<Rightarrow> c)
      else if command = ''pump_now'' then c\<lparr>override_command := Some ''pump_now''\<rparr>
      else c)"

definition check_override_commands ::
    "string option \<Rightarrow> write_outcome \<Rightarrow> string \<Rightarrow> controller \<times> config_file
       \<Rightarrow> controller \<times> config_file" where
  "check_override_commands override_file io now cf =
     (case override_file of
        None \<Rightarrow> cf
      | Some content \<Rightarrow>
          (let c' = apply_command (py_lower (py_strip content)) (fst cf)
           in (c', save_config io now c' (snd cf))))"

section \<open>Telemetry: \<open>monitor_pump_performance\<close>\<close>

text \<open>
  The sampling loop runs while the clock allows; \<open>polls\<close> lists what \<open>get_power_data\<close>
  returned at each of its iterations, \<open>None\<close> for a failed poll. Each partial sum of
  \<open>working_time\<close> is a small multiple of 0.5, so the float additions are exact.
\<close>

fun sample_loop :: "power_data option list \<Rightarrow> rat \<Rightarrow> power_data list \<Rightarrow> rat \<times> power_data list" where
  "sample_loop [] wt rs = (wt, rs)"
| "sample_loop (None # ps) wt rs = sample_loop ps wt rs"
| "sample_loop (Some d # ps) wt rs =
     sample_loop ps (if WORKING_POWER_THRESHOLD < power_w d then wt + 1 / 2 else wt) (rs @ [d])"

text \<open>
  \<open>sum\<close> over floats from the int \<open>0\<close>, adding left to right. (CPython from 3.12 on
  also compensates the rounding errors of the partial sums; the average is only logged
  and recorded, and the policy never reads it.)
\<close>

definition fsum :: "rat list \<Rightarrow> pyfloat" where
  "fsum xs = foldl (\<lambda>acc x. fadd acc (Finite x)) (Finite 0) xs"

text \<open>A float divided by a positive int (here the number of readings).\<close>

fun fdiv_int :: "pyfloat \<Rightarrow> int \<Rightarrow> pyfloat" where
  "fdiv_int (Finite a) n = to_double (a / of_int n)"
| "fdiv_int x n = x"

definition monitor_pump_performance :: "int \<Rightarrow> power_data option list \<Rightarrow> performance" where
  "monitor_pump_performance duration polls =
     (case snd (sample_loop polls 0 []) of
        [] \<Rightarrow>
          \<lparr>working_time = 0, total_time = duration, avg_power = Finite 0, max_power = 0,
           min_power = 0, power_readings = []\<rparr>
      | r # rs \<Rightarrow>
          \<lparr>working_time = fst (sample_loop polls 0 []), total_time = duration,
           avg_power = fdiv_int (fsum (map power_w (r # rs))) (int (length (r # rs))),
           max_power = fold max (map power_w rs) (power_w r),
           min_power = fold min (map power_w rs) (power_w r),
           power_readings = r # rs\<rparr>)"

section \<open>One cycle: \<open>run_cycle\<close>\<close>

text \<open>
  One attempt of \<open>control_pump\<close>: the relay answers \<open>rslt = OK\<close>, answers something else,
  answers with a status other than 200, or the request raises.
\<close>

datatype attempt = ReplyOK | ReplyOther | HttpStatus | RequestRaised

fun control_pump_attempts ::
    "nat list \<Rightarrow> string \<Rightarrow> (nat \<Rightarrow> attempt) \<Rightarrow> controller \<Rightarrow> bool \<times> controller" where
  "control_pump_attempts [] action replies c = (False, c)"
| "control_pump_attempts (k # ks) action replies c =
     (if replies k = ReplyOK then (True, c\<lparr>pump_status := action\<rparr>)
      else control_pump_attempts ks action replies c)"

text \<open>\<open>for attempt in range(3)\<close>.\<close>

definition control_pump :: "string \<Rightarrow> (nat \<Rightarrow> attempt) \<Rightarrow> controller \<Rightarrow> bool \<times> controller" where
  "control_pump action replies c = control_pump_attempts [0, 1, 2] action replies c"

text \<open>
  \<open>reply\<close> is the snapshot built from a successful weather request, \<open>None\<close> when the
  request fails; a failure leaves the previous snapshot in place.
\<close>

definition get_weather_data :: "weather option \<Rightarrow> controller \<Rightarrow> controller" where
  "get_weather_data reply c =
     (if weather_api_key c = [] \<or> weather_api_key c = ''your_api_key'' then c
      else (case reply of None \<Rightarrow> c | Some w \<Rightarrow> c\<lparr>weather_data := Some w\<rparr>))"

text \<open>What the outside world does during one cycle.\<close>

record cycle_env =
  env_weather :: "weather option"
  env_on :: "nat \<Rightarrow> attempt"
  env_polls :: "power_data option list"
  env_off :: "nat \<Rightarrow> attempt"
  env_write :: write_outcome
  env_now :: string

text \<open>
  The cycle up to and including \<open>self.save_config()\<close>. \<open>FailedOn\<close> and \<open>FailedOff\<close> are
  the two \<open>return False\<close>; \<open>CycleRaised\<close> is an exception leaving
  \<open>calculate_dynamic_off_time\<close>; \<open>Persisted n\<close> means the next off-time \<open>n\<close> was computed,
  stored in \<open>current_off_time\<close> and handed to \<open>save_config\<close>. The CSV log, the
  notifications and the wait that follow are outside the model.
\<close>

datatype cycle_outcome = FailedOn | FailedOff | CycleRaised error | Persisted int

definition run_cycle ::
    "cycle_env \<Rightarrow> controller \<times> config_file \<Rightarrow> cycle_outcome \<times> controller \<times> config_file" where
  "run_cycle env cf =
     (let c1 = (fst cf)\<lparr>cycle_count := cycle_count (fst cf) + 1\<rparr>;
          c2 = get_weather_data (env_weather env) c1;
          on = control_pump ''on'' (env_on env) c2
      in if \<not> fst on then (FailedOn, snd on, snd cf)
         else
           (let performance_data = monitor_pump_performance PUMP_ON_TIME (env_polls env);
                off = control_pump ''off'' (env_off env) (snd on)
            in if \<not> fst off then (FailedOff, snd off, snd cf)
               else
                 (case calculate_dynamic_off_time performance_data (snd off) of
                    (Inl e, c5) \<Rightarrow> (CycleRaised e, c5, snd cf)
                  | (Inr next_off_time, c5) \<Rightarrow>
                      (let c6 = c5\<lparr>current_off_time := next_off_time\<rparr>
                       in (Persisted next_off_time, c6,
                           save_config (env_write env) (env_now env) c6 (snd cf))))))"

section \<open>Sample inputs\<close>

definition summary_of :: "rat \<Rightarrow> performance" where
  "summary_of wt =
     \<lparr>working_time = wt, total_time = PUMP_ON_TIME, avg_power = Finite 0, max_power = 0,
      min_power = 0, power_readings = []\<rparr>"

definition light_rain :: weather where
  "light_rain = \<lparr>condition = ''rain'', rain_1h = 1, description = ''light rain''\<rparr>"

definition heavy_rain :: weather where
  "heavy_rain = \<lparr>condition = ''rain'', rain_1h = 5, description = ''heavy intensity rain''\<rparr>"

definition stored_840 :: config where
  "stored_840 =
     \<lparr>cfg_current_off_time = Some 840, cfg_manual_override = None,
      cfg_healthcheck_url = Some [], cfg_weather_api_key = Some [], cfg_location = Some [],
      cfg_last_updated = Some ''2024-03-01T06:00:00''\<rparr>"

text \<open>A cycle in which the relay confirms ON, every poll fails, and OFF is never confirmed.\<close>

definition off_fails_env :: cycle_env where
  "off_fails_env =
     \<lparr>env_weather = None, env_on = (\<lambda>k. ReplyOK), env_polls = [None, None, None],
      env_off = (\<lambda>k. HttpStatus), env_write = WriteOK, env_now = ''2024-03-01T06:00:00''\<rparr>"

definition mixed_polls :: "power_data option list" where
  "mixed_polls =
     [Some \<lparr>power_w = 250, current_a = 1, voltage_v = 240\<rparr>, None,
      Some \<lparr>power_w = 50, current_a = 0, voltage_v = 240\<rparr>,
      Some \<lparr>power_w = 300, current_a = 1, voltage_v = 240\<rparr>]"

section \<open>The model on sample inputs\<close>

text \<open>The float literal 0.7 is the double below seven tenths.\<close>

lemma literal_0_7: "float_literal (7 / 10) = Finite (3152519739159347 / 4503599627370496)"
  by code_simp

lemma sample_scaled_2:
  "scaled_off_time (float_literal 2) init_controller = (Inr 840, init_controller)"
  by code_simp

lemma sample_scaled_1:
  "scaled_off_time (float_literal 1) init_controller = (Inr 420, init_controller)"
  by code_simp

lemma sample_scaled_07:
  "scaled_off_time (float_literal (7 / 10)) (init_controller\<lparr>current_off_time := 1000\<rparr>)
     = (Inr 700, init_controller\<lparr>current_off_time := 1000\<rparr>)"
  by code_simp

text \<open>
  Sweet-spot working time under heavy rain: 420 is halved to 210 and then raised to the
  minimum.
\<close>

lemma sample_heavy_rain:
  "fst (calculate_dynamic_off_time (summary_of 12)
     (init_controller\<lparr>weather_data := Some heavy_rain\<rparr>)) = Inr 300"
  by code_simp

lemma sample_monitor:
  "working_time (monitor_pump_performance 45 mixed_polls) = 1
   \<and> avg_power (monitor_pump_performance 45 mixed_polls) = Finite 200
   \<and> max_power (monitor_pump_performance 45 mixed_polls) = 300
   \<and> min_power (monitor_pump_performance 45 mixed_polls) = 50
   \<and> length (power_readings (monitor_pump_performance 45 mixed_polls)) = 3"
  by code_simp

lemma wait_0_parsed:
  "apply_command (py_lower (py_strip ''wait 0'')) init_controller
     = init_controller\<lparr>manual_override := Some 0\<rparr>"
  by code_simp

lemma wait_10_parsed:
  "apply_command (py_lower (py_strip '' Wait   10  '')) init_controller
     = init_controller\<lparr>manual_override := Some 600\<rparr>"
  by code_simp

section \<open>Properties of the off-time policy\<close>

lemma py_int_apply_limits:
  "\<exists>v. py_int (apply_limits x) = Inr v \<and> MIN_OFF_TIME \<le> v \<and> v \<le> MAX_OFF_TIME"
  by (cases x)
    (auto simp: apply_limits_def py_min_def py_max_def MIN_OFF_TIME_def MAX_OFF_TIME_def
      le_floor_iff floor_le_iff)

lemma heavy_rain_reset: "py_int (fmul (Finite 300) (float_literal (4 / 5))) = Inr 240"
  by code_simp

lemma light_rain_reset: "py_int (fmul (Finite 300) (float_literal (9 / 10))) = Inr 270"
  by code_simp

lemma heavy_load_off_time_eq:
  "heavy_load_off_time c = (Inr 300, c\<lparr>current_off_time := BASE_OFF_TIME\<rparr>)"
  by (simp add: heavy_load_off_time_def heavy_rain_reset light_rain_reset MIN_OFF_TIME_def
      split: option.split)

lemma calculate_no_override:
  "\<not> override_in_effect c \<Longrightarrow>
     calculate_dynamic_off_time pd c = adaptive_off_time pd c"
  by (simp add: calculate_dynamic_off_time_def override_in_effect_def split: option.splits)

text \<open>An override other than 0 is returned as it is, and nothing is written.\<close>

lemma calculate_override:
  "manual_override c = Some m \<Longrightarrow> m \<noteq> 0 \<Longrightarrow>
     calculate_dynamic_off_time pd c = (Inr m, c)"
  by (simp add: calculate_dynamic_off_time_def)

lemma scaled_off_time_range:
  assumes "\<bar>current_off_time c\<bar> < dbl_overflow"
  shows "\<exists>v. fst (scaled_off_time k c) = Inr v \<and> MIN_OFF_TIME \<le> v \<and> v \<le> MAX_OFF_TIME"
  using assms py_int_apply_limits
  by (simp add: scaled_off_time_def int_to_float_def)

lemma scaled_off_time_frame: "snd (scaled_off_time k c) = c"
  by (simp add: scaled_off_time_def split: sum.split)

lemma init_no_override: "\<not> override_in_effect (init_controller\<lparr>current_off_time := n\<rparr>)"
  by (simp add: override_in_effect_def init_controller_def)

lemma init_no_override': "\<not> override_in_effect init_controller"
  by (simp add: override_in_effect_def init_controller_def)

text \<open>
  C4, as amended. When no manual override is in effect (\<open>manual_override\<close> is \<open>None\<close> or
  0) and \<open>current_off_time\<close> is small enough to be converted to a float (below
  \<open>2^1024 - 2^970\<close> in absolute value), \<open>calculate_dynamic_off_time\<close> returns a value, and
  that value lies within \<open>[MIN_OFF_TIME, MAX_OFF_TIME] = [300, 86400]\<close>, for every working
  time and every weather snapshot or none.
\<close>

theorem off_time_within_bounds:
  assumes "\<not> override_in_effect c" and "\<bar>current_off_time c\<bar> < dbl_overflow"
  shows "\<exists>v. fst (calculate_dynamic_off_time pd c) = Inr v
           \<and> MIN_OFF_TIME \<le> v \<and> v \<le> MAX_OFF_TIME"
proof (cases "working_time pd \<le> 30")
  case True
  then show ?thesis
    using assms scaled_off_time_range [OF assms(2)]
    by (simp add: calculate_no_override adaptive_off_time_def)
next
  case False
  then show ?thesis
    using assms(1)
    by (simp add: calculate_no_override adaptive_off_time_def heavy_load_off_time_eq
        SHORT_RUN_THRESHOLD_def OPTIMAL_RUN_THRESHOLD_def MIN_OFF_TIME_def MAX_OFF_TIME_def)
qed

theorem off_time_within_bounds_witness:
  "\<not> override_in_effect init_controller
   \<and> \<bar>current_off_time init_controller\<bar> < dbl_overflow
   \<and> fst (calculate_dynamic_off_time (summary_of 5) init_controller) = Inr 840
   \<and> MIN_OFF_TIME \<le> 840 \<and> 840 \<le> MAX_OFF_TIME"
proof -
  have h1: "\<not> override_in_effect init_controller"
    by (rule init_no_override')
  have h2: "\<bar>current_off_time init_controller\<bar> < dbl_overflow"
    by (simp add: init_controller_def BASE_OFF_TIME_def dbl_overflow_def)
  have v: "fst (calculate_dynamic_off_time (summary_of 5) init_controller) = Inr 840"
    by (simp add: calculate_no_override [OF h1] adaptive_off_time_def summary_of_def
        SHORT_RUN_THRESHOLD_def sample_scaled_2)
  from off_time_within_bounds [OF h1 h2, of "summary_of 5"] h1 h2 v
  show ?thesis by auto
qed

text \<open>
  C4 as stated fails. With the override \<open>wait 1\<close> in effect the policy returns 60, below
  the minimum of 300; and with no override and a \<open>current_off_time\<close> of \<open>2^1024\<close> the
  multiplication raises \<open>OverflowError\<close>, so nothing is returned.
\<close>

theorem override_escapes_bounds:
  "fst (calculate_dynamic_off_time (summary_of 5) (init_controller\<lparr>manual_override := Some 60\<rparr>))
     = Inr 60
   \<and> (60 :: int) < MIN_OFF_TIME
   \<and> fst (calculate_dynamic_off_time (summary_of 5) (init_controller\<lparr>current_off_time := 2 ^ 1024\<rparr>))
     = Inl OverflowError"
  by (simp add: calculate_dynamic_off_time_def init_controller_def adaptive_off_time_def
      summary_of_def SHORT_RUN_THRESHOLD_def scaled_off_time_def int_to_float_def
      dbl_overflow_def MIN_OFF_TIME_def)

text \<open>
  C6. With no manual override in effect, the regime depends on \<open>working_time\<close> alone, with
  the bands cut exactly at 8, 15 and 30: below 8 the off-time is \<open>current_off_time\<close> times
  2.0, from 8 to 15 inclusive times 1.0, above 15 up to 30 inclusive times 0.7 (each
  followed by the weather adjustment and the limits), and above 30 the heavy-load branch
  is taken, which starts from 300 and does not read \<open>current_off_time\<close>.
\<close>

theorem regime_selection:
  assumes "\<not> override_in_effect c"
  shows "(working_time pd < 8 \<longrightarrow>
            calculate_dynamic_off_time pd c = scaled_off_time (float_literal 2) c)
       \<and> (8 \<le> working_time pd \<and> working_time pd \<le> 15 \<longrightarrow>
            calculate_dynamic_off_time pd c = scaled_off_time (float_literal 1) c)
       \<and> (15 < working_time pd \<and> working_time pd \<le> 30 \<longrightarrow>
            calculate_dynamic_off_time pd c = scaled_off_time (float_literal (7 / 10)) c)
       \<and> (30 < working_time pd \<longrightarrow>
            calculate_dynamic_off_time pd c = heavy_load_off_time c)"
  using assms
  by (simp add: calculate_no_override adaptive_off_time_def SHORT_RUN_THRESHOLD_def
      OPTIMAL_RUN_THRESHOLD_def)

theorem regime_selection_witness:
  "calculate_dynamic_off_time (summary_of (15 / 2)) init_controller = (Inr 840, init_controller)
   \<and> calculate_dynamic_off_time (summary_of 8) init_controller = (Inr 420, init_controller)
   \<and> calculate_dynamic_off_time (summary_of 15) init_controller = (Inr 420, init_controller)
   \<and> calculate_dynamic_off_time (summary_of (31 / 2)) (init_controller\<lparr>current_off_time := 1000\<rparr>)
       = (Inr 700, init_controller\<lparr>current_off_time := 1000\<rparr>)
   \<and> calculate_dynamic_off_time (summary_of 30) (init_controller\<lparr>current_off_time := 1000\<rparr>)
       = (Inr 700, init_controller\<lparr>current_off_time := 1000\<rparr>)
   \<and> calculate_dynamic_off_time (summary_of (61 / 2)) (init_controller\<lparr>current_off_time := 1000\<rparr>)
       = (Inr 300, init_controller\<lparr>current_off_time := BASE_OFF_TIME\<rparr>)"
  using regime_selection [OF init_no_override', of "summary_of (15 / 2)"]
    regime_selection [OF init_no_override', of "summary_of 8"]
    regime_selection [OF init_no_override', of "summary_of 15"]
    regime_selection [OF init_no_override, of "summary_of (31 / 2)" 1000]
    regime_selection [OF init_no_override, of "summary_of 30" 1000]
    regime_selection [OF init_no_override, of "summary_of (61 / 2)" 1000]
  by (simp add: summary_of_def sample_scaled_2 sample_scaled_1 sample_scaled_07
      heavy_load_off_time_eq)

text \<open>
  C7, as amended. Evaluating the policy leaves every field of the controller as it was,
  except in the heavy-load regime (no override in effect and \<open>working_time\<close> above 30),
  where it assigns \<open>BASE_OFF_TIME = 420\<close> to \<open>current_off_time\<close> and leaves the other
  fields as they were.
\<close>

theorem policy_frame:
  "snd (calculate_dynamic_off_time pd c) =
     (if override_in_effect c \<or> working_time pd \<le> 30 then c
      else c\<lparr>current_off_time := BASE_OFF_TIME\<rparr>)"
  by (auto simp: calculate_dynamic_off_time_def override_in_effect_def adaptive_off_time_def
      scaled_off_time_frame heavy_load_off_time_eq SHORT_RUN_THRESHOLD_def
      OPTIMAL_RUN_THRESHOLD_def split: option.splits)

theorem policy_frame_witness:
  "snd (calculate_dynamic_off_time (summary_of 5) (init_controller\<lparr>current_off_time := 840\<rparr>))
     = init_controller\<lparr>current_off_time := 840\<rparr>
   \<and> snd (calculate_dynamic_off_time (summary_of 45) (init_controller\<lparr>current_off_time := 840\<rparr>))
     = init_controller\<lparr>current_off_time := 420\<rparr>"
  using policy_frame [of "summary_of 5" "init_controller\<lparr>current_off_time := 840\<rparr>"]
    policy_frame [of "summary_of 45" "init_controller\<lparr>current_off_time := 840\<rparr>"]
  by (simp add: summary_of_def init_no_override BASE_OFF_TIME_def)

text \<open>
  C7 as stated fails: a heavy-load evaluation on a controller whose \<open>current_off_time\<close> is
  840 leaves it at 420.
\<close>

theorem heavy_load_writes_current_off_time:
  "current_off_time
     (snd (calculate_dynamic_off_time (summary_of 45) (init_controller\<lparr>current_off_time := 840\<rparr>)))
   \<noteq> current_off_time (init_controller\<lparr>current_off_time := 840\<rparr>)"
  by (simp add: calculate_dynamic_off_time_def init_controller_def adaptive_off_time_def
      summary_of_def SHORT_RUN_THRESHOLD_def OPTIMAL_RUN_THRESHOLD_def heavy_load_off_time_eq
      BASE_OFF_TIME_def)

text \<open>
  C8. Two controllers that differ only in \<open>current_off_time\<close>, with no override in effect,
  the same \<open>working_time\<close> above 30 and the same weather, get the same off-time.
\<close>

theorem heavy_load_two_run:
  assumes "\<not> override_in_effect c" and "30 < working_time pd"
  shows "fst (calculate_dynamic_off_time pd (c\<lparr>current_off_time := x\<rparr>))
       = fst (calculate_dynamic_off_time pd (c\<lparr>current_off_time := y\<rparr>))"
proof -
  have "\<not> override_in_effect (c\<lparr>current_off_time := x\<rparr>)"
    and "\<not> override_in_effect (c\<lparr>current_off_time := y\<rparr>)"
    using assms(1) by (simp_all add: override_in_effect_def)
  then show ?thesis
    using assms(2)
    by (simp add: calculate_no_override adaptive_off_time_def heavy_load_off_time_eq
        SHORT_RUN_THRESHOLD_def OPTIMAL_RUN_THRESHOLD_def)
qed

theorem heavy_load_two_run_witness:
  "\<not> override_in_effect init_controller \<and> 30 < working_time (summary_of 45)
   \<and> fst (calculate_dynamic_off_time (summary_of 45) (init_controller\<lparr>current_off_time := 420\<rparr>))
     = fst (calculate_dynamic_off_time (summary_of 45) (init_controller\<lparr>current_off_time := 5000\<rparr>))"
proof -
  have h2: "30 < working_time (summary_of 45)"
    by (simp add: summary_of_def)
  from heavy_load_two_run [OF init_no_override' h2, of 420 5000] init_no_override' h2
  show ?thesis by simp
qed

text \<open>
  C10. In the heavy-load regime (no override in effect, \<open>working_time\<close> above 30) the
  policy returns exactly 300 whatever the weather: under rain the baseline becomes 240
  or 270, and the maximum with \<open>MIN_OFF_TIME\<close> brings it back to 300.
\<close>

theorem heavy_load_always_min:
  assumes "\<not> override_in_effect c" and "30 < working_time pd"
  shows "fst (calculate_dynamic_off_time pd c) = Inr 300"
  using assms
  by (simp add: calculate_no_override adaptive_off_time_def heavy_load_off_time_eq
      SHORT_RUN_THRESHOLD_def OPTIMAL_RUN_THRESHOLD_def)

theorem heavy_load_always_min_witness:
  "\<not> override_in_effect (init_controller\<lparr>weather_data := Some heavy_rain\<rparr>)
   \<and> \<not> override_in_effect (init_controller\<lparr>weather_data := Some light_rain\<rparr>)
   \<and> 30 < working_time (summary_of 45)
   \<and> rain_indicated heavy_rain \<and> HEAVY_RAIN_THRESHOLD < rain_1h heavy_rain
   \<and> rain_indicated light_rain \<and> rain_1h light_rain \<le> HEAVY_RAIN_THRESHOLD
   \<and> fst (calculate_dynamic_off_time (summary_of 45)
        (init_controller\<lparr>weather_data := Some heavy_rain\<rparr>)) = Inr 300
   \<and> fst (calculate_dynamic_off_time (summary_of 45)
        (init_controller\<lparr>weather_data := Some light_rain\<rparr>)) = Inr 300"
proof -
  have h1: "\<not> override_in_effect (init_controller\<lparr>weather_data := Some heavy_rain\<rparr>)"
    by (simp add: override_in_effect_def init_controller_def)
  have h1': "\<not> override_in_effect (init_controller\<lparr>weather_data := Some light_rain\<rparr>)"
    by (simp add: override_in_effect_def init_controller_def)
  have h2: "30 < working_time (summary_of 45)"
    by (simp add: summary_of_def)
  have r: "rain_indicated heavy_rain \<and> HEAVY_RAIN_THRESHOLD < rain_1h heavy_rain
      \<and> rain_indicated light_rain \<and> rain_1h light_rain \<le> HEAVY_RAIN_THRESHOLD"
    by (simp add: rain_indicated_def heavy_rain_def light_rain_def HEAVY_RAIN_THRESHOLD_def)
  from heavy_load_always_min [OF h1 h2] heavy_load_always_min [OF h1' h2] h1 h1' h2 r
  show ?thesis by simp
qed

section \<open>Properties of the override channel\<close>

text \<open>
  C5. The claim holds for every override other than 0 (\<open>calculate_override\<close>) and fails
  for 0: the command \<open>wait 0\<close> passes the digit check of \<open>check_override_commands\<close>, which
  stores \<open>manual_override = 0\<close>, and the truthiness test of the policy then takes that
  override for absent. With 5 seconds of working time and the initial off-time of 420,
  the policy returns 840 rather than the override 0.
\<close>

theorem zero_override_ignored:
  "manual_override
     (fst (check_override_commands (Some ''wait 0'') WriteOK ''2024-03-01T06:00:00''
        (init_controller, Missing))) = Some 0
   \<and> fst (calculate_dynamic_off_time (summary_of 5)
        (fst (check_override_commands (Some ''wait 0'') WriteOK ''2024-03-01T06:00:00''
           (init_controller, Missing)))) = Inr 840"
proof -
  have c: "fst (check_override_commands (Some ''wait 0'') WriteOK ''2024-03-01T06:00:00''
        (init_controller, Missing)) = init_controller\<lparr>manual_override := Some 0\<rparr>"
    by (simp add: check_override_commands_def Let_def wait_0_parsed)
  have "calculate_dynamic_off_time (summary_of 5) (init_controller\<lparr>manual_override := Some 0\<rparr>)
      = scaled_off_time (float_literal 2) (init_controller\<lparr>manual_override := Some 0\<rparr>)"
    by (simp add: calculate_dynamic_off_time_def adaptive_off_time_def summary_of_def
        SHORT_RUN_THRESHOLD_def)
  moreover have "fst (scaled_off_time (float_literal 2) (init_controller\<lparr>manual_override := Some 0\<rparr>))
      = Inr 840"
    by code_simp
  ultimately show ?thesis
    by (simp add: c)
qed

section \<open>Properties of persistence and start-up\<close>

text \<open>
  C1. The claim asks for the persisted state to be loaded at process start. The program
  defines \<open>load_config\<close> but never calls it: with a state file holding an off-time of 840
  the first cycle still runs on the baseline of 420 with no override, where
  \<open>load_config\<close> on the same file would have given 840; a sweet-spot cycle then keeps 420.
\<close>

theorem startup_ignores_state_file:
  "current_off_time (controller_at_first_cycle (Stored stored_840)) = 420
   \<and> manual_override (controller_at_first_cycle (Stored stored_840)) = None
   \<and> current_off_time (load_config (Stored stored_840) init_controller) = 840
   \<and> fst (calculate_dynamic_off_time (summary_of 10)
        (controller_at_first_cycle (Stored stored_840))) = Inr 420"
proof -
  have "fst (calculate_dynamic_off_time (summary_of 10)
        (controller_at_first_cycle (Stored stored_840))) = Inr 420"
    by code_simp
  then show ?thesis
    by (simp add: controller_at_first_cycle_def init_controller_def BASE_OFF_TIME_def
        load_config_def stored_840_def get_or_def)
qed

text \<open>
  C2, as amended. A configuration written by \<open>save_config\<close> and read by \<open>load_config\<close>,
  into any controller, gives back the \<open>current_off_time\<close> and the \<open>manual_override\<close>
  that were saved (and the three connection parameters). \<open>cycle_count\<close> is neither
  written nor read: after the load it is what the loading controller had before.
\<close>

theorem config_round_trip:
  "current_off_time (load_config (save_config WriteOK now c f) c0) = current_off_time c
   \<and> manual_override (load_config (save_config WriteOK now c f) c0) = manual_override c
   \<and> healthcheck_url (load_config (save_config WriteOK now c f) c0) = healthcheck_url c
   \<and> weather_api_key (load_config (save_config WriteOK now c f) c0) = weather_api_key c
   \<and> location (load_config (save_config WriteOK now c f) c0) = location c
   \<and> cycle_count (load_config (save_config WriteOK now c f) c0) = cycle_count c0"
  by (simp add: load_config_def save_config_def get_or_def)

text \<open>
  C2 as stated fails for \<open>cycle_count\<close>: a controller that has run five cycles is saved,
  and a freshly constructed controller that loads the file has a count of 0.
\<close>

theorem cycle_count_not_round_tripped:
  "cycle_count (load_config
      (save_config WriteOK ''2024-03-01T06:00:00'' (init_controller\<lparr>cycle_count := 5\<rparr>) Missing)
      init_controller)
   \<noteq> cycle_count (init_controller\<lparr>cycle_count := 5\<rparr>)"
  by (simp add: load_config_def save_config_def get_or_def init_controller_def)

section \<open>Properties of the cycle\<close>

lemma control_pump_fails:
  assumes "replies 0 \<noteq> ReplyOK" and "replies 1 \<noteq> ReplyOK" and "replies 2 \<noteq> ReplyOK"
  shows "control_pump action replies c = (False, c)"
  using assms by (simp add: control_pump_def)

lemma control_pump_succeeds:
  assumes "replies 0 = ReplyOK \<or> replies 1 = ReplyOK \<or> replies 2 = ReplyOK"
  shows "control_pump action replies c = (True, c\<lparr>pump_status := action\<rparr>)"
  using assms by (auto simp: control_pump_def)

lemma get_weather_data_frame:
  "current_off_time (get_weather_data r c) = current_off_time c
   \<and> manual_override (get_weather_data r c) = manual_override c
   \<and> cycle_count (get_weather_data r c) = cycle_count c"
  by (simp add: get_weather_data_def split: option.split)

lemma run_cycle_off_fails:
  assumes on: "env_on env 0 = ReplyOK \<or> env_on env 1 = ReplyOK \<or> env_on env 2 = ReplyOK"
    and off: "env_off env 0 \<noteq> ReplyOK" "env_off env 1 \<noteq> ReplyOK" "env_off env 2 \<noteq> ReplyOK"
  shows "run_cycle env (c, f) =
     (FailedOff,
      (get_weather_data (env_weather env) (c\<lparr>cycle_count := cycle_count c + 1\<rparr>))
        \<lparr>pump_status := ''on''\<rparr>,
      f)"
  by (simp add: run_cycle_def Let_def control_pump_succeeds [OF on] control_pump_fails [OF off])

text \<open>
  C3, as amended. When the relay confirms ON and then fails to confirm OFF in all three
  attempts, \<open>run_cycle\<close> returns failure at once: no off-time is computed, the state file
  is not written, and \<open>current_off_time\<close> and \<open>manual_override\<close> stay as they were. Only
  the cycle count (and the pump status and weather snapshot) have changed.
\<close>

theorem off_failure_aborts_cycle:
  assumes on: "env_on env 0 = ReplyOK \<or> env_on env 1 = ReplyOK \<or> env_on env 2 = ReplyOK"
    and off: "env_off env 0 \<noteq> ReplyOK" "env_off env 1 \<noteq> ReplyOK" "env_off env 2 \<noteq> ReplyOK"
  shows "fst (run_cycle env (c, f)) = FailedOff
       \<and> snd (snd (run_cycle env (c, f))) = f
       \<and> current_off_time (fst (snd (run_cycle env (c, f)))) = current_off_time c
       \<and> manual_override (fst (snd (run_cycle env (c, f)))) = manual_override c
       \<and> cycle_count (fst (snd (run_cycle env (c, f)))) = cycle_count c + 1
       \<and> pump_status (fst (snd (run_cycle env (c, f)))) = ''on''"
  by (simp add: run_cycle_off_fails [OF on off] get_weather_data_frame)

theorem off_failure_aborts_cycle_witness:
  "(env_on off_fails_env 0 = ReplyOK \<or> env_on off_fails_env 1 = ReplyOK
      \<or> env_on off_fails_env 2 = ReplyOK)
   \<and> env_off off_fails_env 0 \<noteq> ReplyOK \<and> env_off off_fails_env 1 \<noteq> ReplyOK
   \<and> env_off off_fails_env 2 \<noteq> ReplyOK
   \<and> fst (run_cycle off_fails_env (init_controller, Stored stored_840)) = FailedOff
   \<and> snd (snd (run_cycle off_fails_env (init_controller, Stored stored_840))) = Stored stored_840
   \<and> current_off_time (fst (snd (run_cycle off_fails_env (init_controller, Stored stored_840))))
       = 420"
proof -
  have on: "env_on off_fails_env 0 = ReplyOK \<or> env_on off_fails_env 1 = ReplyOK
      \<or> env_on off_fails_env 2 = ReplyOK"
    by (simp add: off_fails_env_def)
  have off: "env_off off_fails_env 0 \<noteq> ReplyOK" "env_off off_fails_env 1 \<noteq> ReplyOK"
    "env_off off_fails_env 2 \<noteq> ReplyOK"
    by (simp_all add: off_fails_env_def)
  from off_failure_aborts_cycle [OF on off, of init_controller "Stored stored_840"] on off
  show ?thesis by (simp add: init_controller_def BASE_OFF_TIME_def)
qed

lemma sample_loop_all_failed:
  "list_all (\<lambda>p. p = None) polls \<Longrightarrow> sample_loop polls wt rs = (wt, rs)"
  by (induction polls arbitrary: wt rs) auto

lemma monitor_all_failed:
  assumes "list_all (\<lambda>p. p = None) polls"
  shows "monitor_pump_performance duration polls =
     \<lparr>working_time = 0, total_time = duration, avg_power = Finite 0, max_power = 0,
      min_power = 0, power_readings = []\<rparr>"
  by (simp add: monitor_pump_performance_def sample_loop_all_failed [OF assms])

text \<open>
  C3 as stated fails. In a cycle whose OFF command is never confirmed, the collected
  summary would give an off-time of 840, yet the controller keeps 420 and the missing
  state file stays missing.
\<close>

theorem off_failure_discards_cycle:
  "fst (run_cycle off_fails_env (init_controller, Missing)) = FailedOff
   \<and> snd (snd (run_cycle off_fails_env (init_controller, Missing))) = Missing
   \<and> current_off_time (fst (snd (run_cycle off_fails_env (init_controller, Missing)))) = 420
   \<and> fst (calculate_dynamic_off_time
        (monitor_pump_performance PUMP_ON_TIME (env_polls off_fails_env)) init_controller)
      = Inr 840"
proof -
  have on: "env_on off_fails_env 0 = ReplyOK \<or> env_on off_fails_env 1 = ReplyOK
      \<or> env_on off_fails_env 2 = ReplyOK"
    by (simp add: off_fails_env_def)
  have off: "env_off off_fails_env 0 \<noteq> ReplyOK" "env_off off_fails_env 1 \<noteq> ReplyOK"
    "env_off off_fails_env 2 \<noteq> ReplyOK"
    by (simp_all add: off_fails_env_def)
  note cyc = run_cycle_off_fails [OF on off, of init_controller Missing]
  have pd: "monitor_pump_performance PUMP_ON_TIME (env_polls off_fails_env)
      = \<lparr>working_time = 0, total_time = PUMP_ON_TIME, avg_power = Finite 0, max_power = 0,
      min_power = 0, power_readings = []\<rparr>"
    by (rule monitor_all_failed) (simp add: off_fails_env_def)
  show ?thesis
    by (simp add: cyc pd get_weather_data_frame calculate_no_override [OF init_no_override']
        adaptive_off_time_def SHORT_RUN_THRESHOLD_def sample_scaled_2)
      (simp add: init_controller_def BASE_OFF_TIME_def)
qed

text \<open>
  C9. When every poll of the monitoring phase failed, \<open>monitor_pump_performance\<close> returns
  the summary with \<open>working_time\<close>, \<open>avg_power\<close>, \<open>max_power\<close> and \<open>min_power\<close> all
  zero, and the policy treats it as it treats any summary with a working time below 8:
  with no override in effect, \<open>current_off_time\<close> times 2.0.
\<close>

theorem zero_samples_insufficient_work:
  assumes "list_all (\<lambda>p. p = None) polls" and "working_time pd < 8"
  shows "monitor_pump_performance duration polls =
           \<lparr>working_time = 0, total_time = duration, avg_power = Finite 0, max_power = 0,
            min_power = 0, power_readings = []\<rparr>
       \<and> calculate_dynamic_off_time (monitor_pump_performance duration polls) c
           = calculate_dynamic_off_time pd c
       \<and> (\<not> override_in_effect c \<longrightarrow>
            calculate_dynamic_off_time (monitor_pump_performance duration polls) c
              = scaled_off_time (float_literal 2) c)"
  using assms(2)
  by (auto simp: monitor_all_failed [OF assms(1)] calculate_dynamic_off_time_def
      adaptive_off_time_def SHORT_RUN_THRESHOLD_def override_in_effect_def split: option.splits)

theorem zero_samples_insufficient_work_witness:
  "list_all (\<lambda>p. p = None) [None, None, None :: power_data option]
   \<and> working_time (summary_of 5) < 8
   \<and> \<not> override_in_effect init_controller
   \<and> monitor_pump_performance 45 [None, None, None] =
        \<lparr>working_time = 0, total_time = 45, avg_power = Finite 0, max_power = 0,
         min_power = 0, power_readings = []\<rparr>
   \<and> calculate_dynamic_off_time (monitor_pump_performance 45 [None, None, None]) init_controller
       = calculate_dynamic_off_time (summary_of 5) init_controller
   \<and> calculate_dynamic_off_time (monitor_pump_performance 45 [None, None, None]) init_controller
       = scaled_off_time (float_literal 2) init_controller
   \<and> scaled_off_time (float_literal 2) init_controller = (Inr 840, init_controller)"
proof -
  have h1: "list_all (\<lambda>p. p = None) [None, None, None :: power_data option]"
    by simp
  have h2: "working_time (summary_of 5) < 8"
    by (simp add: summary_of_def)
  from zero_samples_insufficient_work [OF h1 h2, of 45 init_controller] h1 h2 init_no_override'
    sample_scaled_2
  show ?thesis by blast
qed

end
